theory Spec2Isabelle
  imports Main "HOL-Library.Char_ord" "HOL-Library.List_Lexorder"
begin

section \<open>Strings and paths\<close>

text \<open>
  A Python \<open>str\<close> is modelled as a \<open>string\<close> whose characters are the code points
  below 256. \<open>str.isspace\<close> holds there for tab to carriage return (9 to 13), the
  separators 28 to 31, the space (32), NEL (133) and the no-break space (160).
\<close>

definition py_isspace :: "char \<Rightarrow> bool" where
  "py_isspace c =
     (let n = (of_char c :: nat)
      in (9 \<le> n \<and> n \<le> 13) \<or> (28 \<le> n \<and> n \<le> 32) \<or> n = 133 \<or> n = 160)"

text \<open>\<open>s.strip()\<close>: leading and trailing whitespace removed.\<close>

definition py_strip :: "string \<Rightarrow> string" where
  "py_strip s = rev (dropWhile py_isspace (rev (dropWhile py_isspace s)))"

text \<open>
  \<open>s.replace(old, new)\<close>: every occurrence of \<open>old\<close>, found from the left and not
  overlapping, becomes \<open>new\<close>. With an empty \<open>old\<close> Python puts \<open>new\<close> before
  every character and at the end.
\<close>

function py_replace :: "string \<Rightarrow> string \<Rightarrow> string \<Rightarrow> string" where
  "py_replace old new s =
     (if old = [] then new @ concat (map (\<lambda>c. c # new) s)
      else if s = [] then []
      else if take (length old) s = old
        then new @ py_replace old new (drop (length old) s)
      else hd s # py_replace old new (tl s))"
  by pat_completeness auto
termination
proof (relation "measure (\<lambda>(old, new, s). length s)")
  show "wf (measure (\<lambda>(old, new, s). length s))"
    by simp
next
  fix old new s :: string
  assume "old \<noteq> []" "s \<noteq> []"
  then have "0 < length old" "0 < length s"
    by simp_all
  then show "((old, new, drop (length old) s), old, new, s)
      \<in> measure (\<lambda>(old, new, s). length s)"
    by simp
next
  fix old new s :: string
  assume "s \<noteq> []"
  then show "((old, new, tl s), old, new, s) \<in> measure (\<lambda>(old, new, s). length s)"
    by (cases s) simp_all
qed

declare py_replace.simps [simp del]

text \<open>
  \<open>os.path.basename\<close> and \<open>os.path.dirname\<close> of \<open>posixpath\<close>: the path is cut after
  its last slash; the directory part loses its trailing slashes unless it consists of
  slashes only.
\<close>

definition basename :: "string \<Rightarrow> string" where
  "basename p = rev (takeWhile (\<lambda>c. c \<noteq> CHR ''/'') (rev p))"


section \<open>The world of the script\<close>

text \<open>
  The files on disk: a path has a content or does not exist. What \<open>subprocess.run\<close>
  finds when it starts a program: the program is not on the PATH, or it runs and exits
  with a return code, its captured standard output and its captured standard error.
\<close>

type_synonym filesystem = "string \<rightharpoonup> string"

datatype proc = NoSuchProgram | Exit int string string

text \<open>
  The exceptions of the script: \<open>FileNotFoundError\<close>, and
  \<open>subprocess.CalledProcessError\<close> with its return code, command, output and stderr.
\<close>

datatype exn = FileNotFoundError | CalledProcessError int "string list" string string

text \<open>
  What the script does to the outside, in order: each \<open>subprocess.run\<close> with its
  command line and what came of it, each \<open>os.replace\<close> (source, destination) and each
  \<open>os.remove\<close>.
\<close>

datatype event = Run "string list" proc | Replace string string | Remove string

text \<open>
  The lines the script prints, one constructor for each \<open>print\<close> of the source with
  the values its f-string interpolates:
  \<^item> \<open>ErrorGettingInfo p e\<close>: \<^verbatim>\<open>Error getting info for {video_path}: {e}\<close>
  \<^item> \<open>Converting n\<close>: \<^verbatim>\<open>Converting: {os.path.basename(input_path)}\<close>
  \<^item> \<open>SuccessfullyConverted n\<close>: \<^verbatim>\<open>Successfully converted: {os.path.basename(input_path)}\<close>
  \<^item> \<open>ErrorConverting p e\<close>: \<^verbatim>\<open>Error converting {input_path}: {e}\<close>
  \<^item> \<open>StderrText t\<close>: \<^verbatim>\<open>stderr: {e.stderr}\<close>
  \<^item> \<open>NoFilesFound\<close>: \<^verbatim>\<open>No video_{scene_id}.mp4 files found!\<close>
  \<^item> \<open>FoundFiles n\<close>: \<^verbatim>\<open>Found {len(video_files)} video files to process\<close>
  \<^item> \<open>FfmpegNotInstalled\<close>: \<^verbatim>\<open>Error: ffmpeg is not installed or not in PATH\<close>
  \<^item> \<open>PleaseInstall\<close>: \<^verbatim>\<open>Please install ffmpeg: brew install ffmpeg\<close>
  \<^item> \<open>Skipping n\<close>: \<^verbatim>\<open>Skipping {os.path.basename(video_path)} (already H.264)\<close>
  \<^item> \<open>CurrentCodec c\<close>: \<^verbatim>\<open>Current codec: {codec}\<close>, where \<open>codec\<close> may be \<open>None\<close>
  \<^item> \<open>Blank\<close>: an empty line
  \<^item> \<open>Rule\<close>: fifty equals signs
  \<^item> \<open>ConversionComplete\<close>: \<^verbatim>\<open>Conversion complete!\<close>
  \<^item> \<open>ReportConverted n\<close>: \<^verbatim>\<open>  Successfully converted: {success_count}\<close>
  \<^item> \<open>ReportSkipped n\<close>: \<^verbatim>\<open>  Skipped (already H.264): {skip_count}\<close>
  \<^item> \<open>ReportFailed n\<close>: \<^verbatim>\<open>  Failed: {len(video_files) - success_count - skip_count}\<close>
\<close>

datatype line =
    ErrorGettingInfo string exn
  | Converting string
  | SuccessfullyConverted string
  | ErrorConverting string exn
  | StderrText string
  | NoFilesFound
  | FoundFiles nat
  | FfmpegNotInstalled
  | PleaseInstall
  | Skipping string
  | CurrentCodec "string option"
  | Blank
  | Rule
  | ConversionComplete
  | ReportConverted int
  | ReportSkipped int
  | ReportFailed int

record state =
  fs :: filesystem
  console :: "line list"
  events :: "event list"

text \<open>
  The external programs are opaque. \<open>ffprobe\<close> and \<open>ffmpeg -version\<close> read the disk
  and change nothing. \<open>ffmpeg\<close> converting an input to an output path gives, besides its
  exit, what stands at the output path afterwards (\<open>None\<close>: no file there); it writes
  nowhere else.
\<close>

record tools =
  ffprobe :: "filesystem \<Rightarrow> string \<Rightarrow> proc"
  ffmpeg_version :: "filesystem \<Rightarrow> proc"
  ffmpeg :: "filesystem \<Rightarrow> string \<Rightarrow> string \<Rightarrow> proc \<times> string option"

definition py_print :: "line \<Rightarrow> state \<Rightarrow> state" where
  "py_print l s = s\<lparr>console := console s @ [l]\<rparr>"

text \<open>
  \<open>subprocess.run(cmd, capture_output=True, check=True)\<close>, given what starting the
  program comes to: a missing program raises \<open>FileNotFoundError\<close>, a return code other
  than zero raises \<open>CalledProcessError\<close>, and otherwise the captured output and
  stderr are returned.
\<close>

definition subprocess_run :: "string list \<Rightarrow> proc \<Rightarrow> state \<Rightarrow> (exn + string \<times> string) \<times> state" where
  "subprocess_run cmd r s =
     (let s' = s\<lparr>events := events s @ [Run cmd r]\<rparr>
      in case r of
           NoSuchProgram \<Rightarrow> (Inl FileNotFoundError, s')
         | Exit returncode output err \<Rightarrow>
             if returncode \<noteq> 0 then (Inl (CalledProcessError returncode cmd output err), s')
             else (Inr (output, err), s'))"

text \<open>\<open>os.path.exists\<close>, \<open>os.remove\<close> and \<open>os.replace\<close> on the modelled disk.
  \<open>os.replace\<close> raises \<open>FileNotFoundError\<close> when the source does not exist, and leaves
  the disk as it is when source and destination are the same existing file.\<close>

definition os_path_exists :: "string \<Rightarrow> state \<Rightarrow> bool" where
  "os_path_exists p s = (fs s p \<noteq> None)"

definition os_remove :: "string \<Rightarrow> state \<Rightarrow> (exn + unit) \<times> state" where
  "os_remove p s =
     (case fs s p of
        None \<Rightarrow> (Inl FileNotFoundError, s)
      | Some c \<Rightarrow> (Inr (), s\<lparr>fs := (fs s)(p := None), events := events s @ [Remove p]\<rparr>))"

definition os_replace :: "string \<Rightarrow> string \<Rightarrow> state \<Rightarrow> (exn + unit) \<times> state" where
  "os_replace src dst s =
     (case fs s src of
        None \<Rightarrow> (Inl FileNotFoundError, s)
      | Some c \<Rightarrow>
          (Inr (), s\<lparr>fs := ((fs s)(src := None))(dst \<mapsto> c),
                     events := events s @ [Replace src dst]\<rparr>))"

section \<open>The script\<close>

definition ffprobe_cmd :: "string \<Rightarrow> string list" where
  "ffprobe_cmd video_path =
     [''ffprobe'', ''-v'', ''error'', ''-select_streams'', ''v:0'',
      ''-show_entries'', ''stream=codec_name'', ''-of'', ''default=noprint_wrappers=1:nokey=1'',
      video_path]"

text \<open>
  \<open>get_video_info\<close>: the stripped output of \<open>ffprobe\<close>; \<open>None\<close>, after printing the
  error, when \<open>ffprobe\<close> exits with a non-zero code. Only \<open>CalledProcessError\<close> is
  caught: a \<open>FileNotFoundError\<close> leaves the function.
\<close>

definition get_video_info :: "tools \<Rightarrow> string \<Rightarrow> state \<Rightarrow> (exn + string option) \<times> state" where
  "get_video_info T video_path s =
     (case subprocess_run (ffprobe_cmd video_path) (ffprobe T (fs s) video_path) s of
        (Inr (output, err), s1) \<Rightarrow> (Inr (Some (py_strip output)), s1)
      | (Inl (CalledProcessError rc cmd output err), s1) \<Rightarrow>
          (Inr None,
           py_print (ErrorGettingInfo video_path (CalledProcessError rc cmd output err)) s1)
      | (Inl FileNotFoundError, s1) \<Rightarrow> (Inl FileNotFoundError, s1))"

definition ffmpeg_cmd :: "string \<Rightarrow> string \<Rightarrow> string list" where
  "ffmpeg_cmd input_path output_path =
     [''ffmpeg'', ''-i'', input_path,
      ''-c:v'', ''libx264'',
      ''-profile:v'', ''high'',
      ''-pix_fmt'', ''yuv420p'',
      ''-colorspace'', ''bt709'',
      ''-color_primaries'', ''bt709'',
      ''-color_trc'', ''bt709'',
      ''-crf'', ''23'',
      ''-preset'', ''medium'',
      ''-movflags'', ''+faststart'',
      ''-y'',
      output_path]"

text \<open>
  Running the converter: a program that is found leaves its result at the output path;
  one that is not found leaves the disk alone.
\<close>

definition run_ffmpeg :: "tools \<Rightarrow> string \<Rightarrow> string \<Rightarrow> state \<Rightarrow> (exn + string \<times> string) \<times> state" where
  "run_ffmpeg T input_path output_path s =
     (case ffmpeg T (fs s) input_path output_path of
        (NoSuchProgram, written) \<Rightarrow>
          subprocess_run (ffmpeg_cmd input_path output_path) NoSuchProgram s
      | (Exit rc output err, written) \<Rightarrow>
          subprocess_run (ffmpeg_cmd input_path output_path) (Exit rc output err)
            (s\<lparr>fs := (fs s)(output_path := written)\<rparr>))"

text \<open>
  \<open>convert_video\<close>: \<open>True\<close> when \<open>ffmpeg\<close> exits with zero, \<open>False\<close> after printing
  the error and the tool's stderr when it exits with another code. As in
  \<open>get_video_info\<close>, a \<open>FileNotFoundError\<close> is not caught.
\<close>

definition convert_video :: "tools \<Rightarrow> string \<Rightarrow> string \<Rightarrow> state \<Rightarrow> (exn + bool) \<times> state" where
  "convert_video T input_path output_path s =
     (case run_ffmpeg T input_path output_path (py_print (Converting (basename input_path)) s) of
        (Inr result, s1) \<Rightarrow>
          (Inr True, py_print (SuccessfullyConverted (basename input_path)) s1)
      | (Inl (CalledProcessError rc cmd output err), s1) \<Rightarrow>
          (Inr False,
           py_print (StderrText err)
             (py_print (ErrorConverting input_path (CalledProcessError rc cmd output err)) s1))
      | (Inl FileNotFoundError, s1) \<Rightarrow> (Inl FileNotFoundError, s1))"

text \<open>
  The pattern \<open>str(Path('./static/videos') / 'video_0446.mp4')\<close>. It has no wildcard,
  so \<open>glob.glob\<close> returns the pattern itself when that path exists and nothing
  otherwise.
\<close>

definition video_pattern :: string where
  "video_pattern = ''static/videos/video_0446.mp4''"

definition glob_glob :: "string \<Rightarrow> state \<Rightarrow> string list" where
  "glob_glob pattern s = (if os_path_exists pattern s then [pattern] else [])"

definition temp_output :: "string \<Rightarrow> string" where
  "temp_output video_path = py_replace ''.mp4'' ''_temp.mp4'' video_path"

text \<open>
  The body of the loop of \<open>main\<close> for one path, on the counters
  \<open>(success_count, skip_count)\<close>.
\<close>

definition process_video :: "tools \<Rightarrow> string \<Rightarrow> int \<times> int \<Rightarrow> state \<Rightarrow> (exn + int \<times> int) \<times> state" where
  "process_video T video_path counts s =
     (case counts of (success_count, skip_count) \<Rightarrow>
      case get_video_info T video_path s of
        (Inl e, s1) \<Rightarrow> (Inl e, s1)
      | (Inr codec, s1) \<Rightarrow>
          if codec = Some ''h264''
          then (Inr (success_count, skip_count + 1),
                py_print (Skipping (basename video_path)) s1)
          else
            (case convert_video T video_path (temp_output video_path)
                    (py_print (CurrentCodec codec) s1) of
               (Inl e, s2) \<Rightarrow> (Inl e, s2)
             | (Inr True, s2) \<Rightarrow>
                 (case os_replace (temp_output video_path) video_path s2 of
                    (Inl e, s3) \<Rightarrow> (Inl e, s3)
                  | (Inr u, s3) \<Rightarrow> (Inr (success_count + 1, skip_count), py_print Blank s3))
             | (Inr False, s2) \<Rightarrow>
                 (if os_path_exists (temp_output video_path) s2
                  then (case os_remove (temp_output video_path) s2 of
                          (Inl e, s3) \<Rightarrow> (Inl e, s3)
                        | (Inr u, s3) \<Rightarrow> (Inr (success_count, skip_count), py_print Blank s3))
                  else (Inr (success_count, skip_count), py_print Blank s2))))"

text \<open>The loop: an exception that leaves the body ends it.\<close>

fun process_videos :: "tools \<Rightarrow> string list \<Rightarrow> int \<times> int \<Rightarrow> state \<Rightarrow> (exn + int \<times> int) \<times> state" where
  "process_videos T [] counts s = (Inr counts, s)"
| "process_videos T (video_path # rest) counts s =
     (case process_video T video_path counts s of
        (Inl e, s1) \<Rightarrow> (Inl e, s1)
      | (Inr counts1, s1) \<Rightarrow> process_videos T rest counts1 s1)"

text \<open>The summary block printed at the end of \<open>main\<close>.\<close>

definition summary :: "nat \<Rightarrow> int \<Rightarrow> int \<Rightarrow> line list" where
  "summary n_files success_count skip_count =
     [Blank, Rule, ConversionComplete,
      ReportConverted success_count,
      ReportSkipped skip_count,
      ReportFailed (int n_files - success_count - skip_count),
      Rule]"

text \<open>
  \<open>main\<close>: the result is \<open>Inr ()\<close> when the function returns and \<open>Inl e\<close> when the
  exception \<open>e\<close> leaves it; the state is the world as the run leaves it.
\<close>

definition main :: "tools \<Rightarrow> state \<Rightarrow> (exn + unit) \<times> state" where
  "main T s =
     (let video_files = sort (glob_glob video_pattern s)
      in if video_files = [] then (Inr (), py_print NoFilesFound s)
         else
           (let s1 = py_print Blank (py_print (FoundFiles (length video_files)) s)
            in case subprocess_run [''ffmpeg'', ''-version''] (ffmpeg_version T (fs s1)) s1 of
                 (Inl (CalledProcessError rc cmd output err), s2) \<Rightarrow>
                   (Inr (), py_print PleaseInstall (py_print FfmpegNotInstalled s2))
               | (Inl FileNotFoundError, s2) \<Rightarrow>
                   (Inr (), py_print PleaseInstall (py_print FfmpegNotInstalled s2))
               | (Inr result, s2) \<Rightarrow>
                   (case process_videos T video_files (0, 0) s2 of
                      (Inl e, s3) \<Rightarrow> (Inl e, s3)
                    | (Inr (success_count, skip_count), s3) \<Rightarrow>
                        (Inr (),
                         s3\<lparr>console := console s3
                               @ summary (length video_files) success_count skip_count\<rparr>))))"

section \<open>Reading a run\<close>

text \<open>
  What a run leaves in its events and on its console is read with these: an
  \<open>os.replace\<close>, a line that reports a skipped file, a run of \<open>ffmpeg\<close> that exited
  with a non-zero code, and the command lines of the runs of \<open>ffprobe\<close>, in order.
\<close>

fun is_replace :: "event \<Rightarrow> bool" where
  "is_replace (Replace src dst) = True"
| "is_replace e = False"

fun is_skipping :: "line \<Rightarrow> bool" where
  "is_skipping (Skipping n) = True"
| "is_skipping l = False"

fun failed_convert :: "event \<Rightarrow> bool" where
  "failed_convert (Run cmd (Exit rc output err)) = (rc \<noteq> 0 \<and> take 1 cmd = [''ffmpeg''])"
| "failed_convert e = False"

fun probe_cmds :: "event list \<Rightarrow> string list list" where
  "probe_cmds [] = []"
| "probe_cmds (Run cmd r # es) =
     (if take 1 cmd = [''ffprobe''] then cmd # probe_cmds es else probe_cmds es)"
| "probe_cmds (e # es) = probe_cmds es"

text \<open>
  The lines printed for a file that is not skipped, from its probe up to the
  conversion: the error of a probe that exited with a non-zero code, and the codec as
  the loop prints it.
\<close>

definition probe_lines :: "string \<Rightarrow> int \<Rightarrow> string \<Rightarrow> string \<Rightarrow> line list" where
  "probe_lines p prc pout perr =
     (if prc \<noteq> 0
      then [ErrorGettingInfo p (CalledProcessError prc (ffprobe_cmd p) pout perr),
            CurrentCodec None]
      else [CurrentCodec (Some (py_strip pout))])"

section \<open>Example worlds\<close>

text \<open>
  A disk with the given files, nothing printed and nothing run yet. In the examples the
  content of a file starts with the name of its codec.
\<close>

definition disk :: "(string \<times> string) list \<Rightarrow> state" where
  "disk files = \<lparr>fs = map_of files, console = [], events = []\<rparr>"

text \<open>
  Tools that behave: \<open>ffprobe\<close> prints the first word of the file and a newline, and
  fails on a missing file; \<open>ffmpeg\<close> writes an H.264 file, except that on a missing
  input it fails and writes nothing, and on a truncated input it fails and leaves an
  empty output file.
\<close>

definition demo_tools :: tools where
  "demo_tools =
     \<lparr>ffprobe = (\<lambda>f p. case f p of
          None \<Rightarrow> Exit 1 [] ''No such file or directory''
        | Some c \<Rightarrow> Exit 0 (takeWhile (\<lambda>x. x \<noteq> CHR '' '') c @ [CHR 0x0A]) []),
      ffmpeg_version = (\<lambda>f. Exit 0 ''ffmpeg version 6.0'' []),
      ffmpeg = (\<lambda>f i t. case f i of
          None \<Rightarrow> (Exit 1 [] ''No such file or directory'', f t)
        | Some c \<Rightarrow>
            if c = ''mpeg4 truncated''
            then (Exit 1 [] ''Invalid data found when processing input'', Some [])
            else (Exit 0 [] [], Some ''h264''))\<rparr>"


text \<open>The same tools with no \<open>ffprobe\<close> on the PATH, and with no \<open>ffmpeg\<close> on the PATH.\<close>

definition no_ffprobe_tools :: tools where
  "no_ffprobe_tools = demo_tools\<lparr>ffprobe := (\<lambda>f p. NoSuchProgram)\<rparr>"

definition no_ffmpeg_tools :: tools where
  "no_ffmpeg_tools =
     demo_tools\<lparr>ffmpeg_version := (\<lambda>f. NoSuchProgram),
                ffmpeg := (\<lambda>f i t. (NoSuchProgram, f t))\<rparr>"

text \<open>
  The world that a first run of \<open>main\<close> with the behaving tools leaves, started on a
  disk whose one candidate is an MPEG-4 file.
\<close>

definition after_first_run :: state where
  "after_first_run = snd (main demo_tools (disk [(video_pattern, ''mpeg4'')]))"


section \<open>Facts about the parts\<close>

lemma probe_cmds_append: "probe_cmds (xs @ ys) = probe_cmds xs @ probe_cmds ys"
  by (induction xs rule: probe_cmds.induct) simp_all

lemma video_files_eq:
  "sort (glob_glob video_pattern s) = (if fs s video_pattern = None then [] else [video_pattern])"
  by (simp add: glob_glob_def os_path_exists_def)

lemma temp_output_video_pattern:
  "temp_output video_pattern = ''static/videos/video_0446_temp.mp4''"
  by (simp add: temp_output_def video_pattern_def py_replace.simps)

text \<open>The equations that evaluate a run on a concrete world.\<close>

lemmas run_defs = main_def glob_glob_def disk_def subprocess_run_def py_print_def
  process_video_def get_video_info_def convert_video_def run_ffmpeg_def os_replace_def
  os_remove_def os_path_exists_def temp_output_video_pattern [unfolded video_pattern_def]
  summary_def Let_def py_strip_def py_isspace_def video_pattern_def basename_def


text \<open>
  The temporary name is not an accident of the one name in the pattern: for every path
  that ends in \<open>.mp4\<close> and holds \<open>.mp4\<close> nowhere before, the replacement changes the
  ending only.
\<close>

lemma py_replace_sole_suffix:
  assumes "old \<noteq> []"
    and "\<forall>i<length x. take (length old) (drop i (x @ old)) \<noteq> old"
  shows "py_replace old new (x @ old) = x @ new"
  using assms(2)
proof (induction x)
  case Nil
  show ?case
    using assms(1)
    by (simp add: py_replace.simps [of old new old] py_replace.simps [of old new "[]"])
next
  case (Cons c x)
  have here: "take (length old) ((c # x) @ old) \<noteq> old"
    using Cons.prems by (metis drop0 length_greater_0_conv list.simps(3))
  have later: "\<forall>i<length x. take (length old) (drop i (x @ old)) \<noteq> old"
  proof (intro allI impI)
    fix i assume "i < length x"
    then have "Suc i < length (c # x)" by simp
    then have "take (length old) (drop (Suc i) ((c # x) @ old)) \<noteq> old"
      using Cons.prems by blast
    then show "take (length old) (drop i (x @ old)) \<noteq> old" by simp
  qed
  have "py_replace old new ((c # x) @ old) = c # py_replace old new (x @ old)"
    using assms(1) here by (subst py_replace.simps) simp
  then show ?case
    using Cons.IH [OF later] by simp
qed

lemma temp_output_sole_suffix:
  assumes "\<forall>i<length x. take 4 (drop i (x @ ''.mp4'')) \<noteq> ''.mp4''"
  shows "temp_output (x @ ''.mp4'') = x @ ''_temp.mp4''"
proof -
  have len: "length ''.mp4'' = 4"
    by simp
  have sole: "\<forall>i<length x. take (length ''.mp4'') (drop i (x @ ''.mp4'')) \<noteq> ''.mp4''"
    unfolding len using assms .
  have "''.mp4'' \<noteq> []"
    by simp
  then show ?thesis
    unfolding temp_output_def using sole by (rule py_replace_sole_suffix)
qed

lemma main_no_files:
  assumes "sort (glob_glob video_pattern s) = []"
  shows "main T s = (Inr (), s\<lparr>console := console s @ [NoFilesFound]\<rparr>)"
  using assms by (simp add: main_def py_print_def)

lemma get_video_info_exit:
  assumes "ffprobe T (fs s) p = Exit prc pout perr"
  shows "get_video_info T p s =
     (Inr (if prc \<noteq> 0 then None else Some (py_strip pout)),
      s\<lparr>console := console s @
            (if prc \<noteq> 0
             then [ErrorGettingInfo p (CalledProcessError prc (ffprobe_cmd p) pout perr)]
             else []),
         events := events s @ [Run (ffprobe_cmd p) (Exit prc pout perr)]\<rparr>)"
  using assms by (simp add: get_video_info_def subprocess_run_def py_print_def)

lemma get_video_info_missing:
  assumes "ffprobe T (fs s) p = NoSuchProgram"
  shows "get_video_info T p s =
     (Inl FileNotFoundError, s\<lparr>events := events s @ [Run (ffprobe_cmd p) NoSuchProgram]\<rparr>)"
  using assms by (simp add: get_video_info_def subprocess_run_def)


text \<open>One turn of the loop on a file whose probe says H.264.\<close>

lemma process_video_skip:
  assumes "ffprobe T (fs s) p = Exit 0 pout perr" and "py_strip pout = ''h264''"
  shows "process_video T p (a, k) s =
     (Inr (a, k + 1),
      s\<lparr>console := console s @ [Skipping (basename p)],
         events := events s @ [Run (ffprobe_cmd p) (Exit 0 pout perr)]\<rparr>)"
  using assms by (simp add: process_video_def get_video_info_exit py_print_def)

text \<open>
  One turn of the loop on a file whose probe ran and did not say H.264, by what the
  converter does: not found, a non-zero exit, a zero exit with no file written, a zero
  exit with a file.
\<close>

lemma process_video_convert:
  assumes "ffprobe T (fs s) p = Exit prc pout perr"
    and "prc = 0 \<longrightarrow> py_strip pout \<noteq> ''h264''"
    and "ffmpeg T (fs s) p (temp_output p) = (r, w)"
  shows "process_video T p (a, k) s =
     (case r of
        NoSuchProgram \<Rightarrow>
          (Inl FileNotFoundError,
           s\<lparr>console := console s @ probe_lines p prc pout perr @ [Converting (basename p)],
              events := events s @ [Run (ffprobe_cmd p) (Exit prc pout perr),
                                    Run (ffmpeg_cmd p (temp_output p)) NoSuchProgram]\<rparr>)
      | Exit rc output err \<Rightarrow>
          if rc \<noteq> 0 then
            (Inr (a, k),
             s\<lparr>fs := (fs s)(temp_output p := None),
                console := console s @ probe_lines p prc pout perr @
                  [Converting (basename p),
                   ErrorConverting p
                     (CalledProcessError rc (ffmpeg_cmd p (temp_output p)) output err),
                   StderrText err, Blank],
                events := events s @ [Run (ffprobe_cmd p) (Exit prc pout perr),
                                      Run (ffmpeg_cmd p (temp_output p)) (Exit rc output err)] @
                  (if w = None then [] else [Remove (temp_output p)])\<rparr>)
          else
            (case w of
               None \<Rightarrow>
                 (Inl FileNotFoundError,
                  s\<lparr>fs := (fs s)(temp_output p := None),
                     console := console s @ probe_lines p prc pout perr @
                       [Converting (basename p), SuccessfullyConverted (basename p)],
                     events := events s @ [Run (ffprobe_cmd p) (Exit prc pout perr),
                                           Run (ffmpeg_cmd p (temp_output p))
                                             (Exit rc output err)]\<rparr>)
             | Some c \<Rightarrow>
                 (Inr (a + 1, k),
                  s\<lparr>fs := ((fs s)(temp_output p := None))(p \<mapsto> c),
                     console := console s @ probe_lines p prc pout perr @
                       [Converting (basename p), SuccessfullyConverted (basename p), Blank],
                     events := events s @ [Run (ffprobe_cmd p) (Exit prc pout perr),
                                           Run (ffmpeg_cmd p (temp_output p))
                                             (Exit rc output err),
                                           Replace (temp_output p) p]\<rparr>)))"
  using assms
  by (auto simp add: process_video_def get_video_info_exit py_print_def convert_video_def
      run_ffmpeg_def subprocess_run_def os_replace_def os_remove_def os_path_exists_def
      probe_lines_def split: proc.splits option.splits)

text \<open>
  A turn of the loop that returns adds exactly one of: a replaced file, a skipped file,
  a failed conversion; and it probes its file once.
\<close>

lemma process_video_counts:
  assumes "process_video T p (a, k) s = (Inr (a', k'), s')"
  shows "\<exists>ls es. console s' = console s @ ls \<and> events s' = events s @ es
      \<and> a' = a + int (length (filter is_replace es))
      \<and> k' = k + int (length (filter is_skipping ls))
      \<and> (a' - a) + (k' - k) + int (length (filter failed_convert es)) = 1
      \<and> probe_cmds es = [ffprobe_cmd p]"
proof (cases "ffprobe T (fs s) p")
  case NoSuchProgram
  then show ?thesis
    using assms by (simp add: process_video_def get_video_info_missing)
next
  case (Exit prc pout perr)
  show ?thesis
  proof (cases "prc = 0 \<and> py_strip pout = ''h264''")
    case True
    then have "process_video T p (a, k) s =
       (Inr (a, k + 1),
        s\<lparr>console := console s @ [Skipping (basename p)],
           events := events s @ [Run (ffprobe_cmd p) (Exit 0 pout perr)]\<rparr>)"
      using Exit by (simp add: process_video_skip)
    with assms show ?thesis
      by (auto simp add: ffprobe_cmd_def)
  next
    case False
    obtain r w where conv: "ffmpeg T (fs s) p (temp_output p) = (r, w)"
      by (cases "ffmpeg T (fs s) p (temp_output p)")
    have notskip: "prc = 0 \<longrightarrow> py_strip pout \<noteq> ''h264''"
      using False by simp
    show ?thesis
      using assms unfolding process_video_convert [OF Exit notskip conv]
      by (auto simp add: ffprobe_cmd_def ffmpeg_cmd_def probe_lines_def
          split: proc.splits option.splits if_splits)
  qed
qed

lemma process_videos_counts:
  assumes "process_videos T ps (a, k) s = (Inr (a', k'), s')"
  shows "\<exists>ls es. console s' = console s @ ls \<and> events s' = events s @ es
      \<and> a' = a + int (length (filter is_replace es))
      \<and> k' = k + int (length (filter is_skipping ls))
      \<and> (a' - a) + (k' - k) + int (length (filter failed_convert es)) = int (length ps)
      \<and> probe_cmds es = map ffprobe_cmd ps"
  using assms
proof (induction ps arbitrary: a k s)
  case Nil
  then show ?case by simp
next
  case (Cons p ps)
  from Cons.prems obtain a1 k1 s1
    where step: "process_video T p (a, k) s = (Inr (a1, k1), s1)"
      and rest: "process_videos T ps (a1, k1) s1 = (Inr (a', k'), s')"
    by (auto split: prod.splits sum.splits)
  from process_video_counts [OF step] obtain ls1 es1
    where one: "console s1 = console s @ ls1" "events s1 = events s @ es1"
      "a1 = a + int (length (filter is_replace es1))"
      "k1 = k + int (length (filter is_skipping ls1))"
      "(a1 - a) + (k1 - k) + int (length (filter failed_convert es1)) = 1"
      "probe_cmds es1 = [ffprobe_cmd p]"
    by blast
  from Cons.IH [OF rest] obtain ls2 es2
    where more: "console s' = console s1 @ ls2" "events s' = events s1 @ es2"
      "a' = a1 + int (length (filter is_replace es2))"
      "k' = k1 + int (length (filter is_skipping ls2))"
      "(a' - a1) + (k' - k1) + int (length (filter failed_convert es2)) = int (length ps)"
      "probe_cmds es2 = map ffprobe_cmd ps"
    by blast
  have "console s' = console s @ (ls1 @ ls2)" "events s' = events s @ (es1 @ es2)"
    using one more by simp_all
  moreover have "a' = a + int (length (filter is_replace (es1 @ es2)))"
    "k' = k + int (length (filter is_skipping (ls1 @ ls2)))"
    using one more by simp_all
  moreover have "(a' - a) + (k' - k) + int (length (filter failed_convert (es1 @ es2)))
      = int (length (p # ps))"
    using one more by simp
  moreover have "probe_cmds (es1 @ es2) = map ffprobe_cmd (p # ps)"
    using one more by (simp add: probe_cmds_append)
  ultimately show ?case by blast
qed



text \<open>The loop on files that all probe as H.264.\<close>

lemma process_videos_all_skip:
  assumes "\<forall>p\<in>set ps. \<exists>pout perr.
      ffprobe T (fs s) p = Exit 0 pout perr \<and> py_strip pout = ''h264''"
  shows "process_videos T ps (a, k) s =
     (Inr (a, k + int (length ps)),
      s\<lparr>console := console s @ map (\<lambda>p. Skipping (basename p)) ps,
         events := events s @ map (\<lambda>p. Run (ffprobe_cmd p) (ffprobe T (fs s) p)) ps\<rparr>)"
  using assms
proof (induction ps arbitrary: k s)
  case Nil
  then show ?case by simp
next
  case (Cons p ps)
  from Cons.prems obtain pout perr
    where probe: "ffprobe T (fs s) p = Exit 0 pout perr" "py_strip pout = ''h264''"
    by auto
  let ?s1 = "s\<lparr>console := console s @ [Skipping (basename p)],
         events := events s @ [Run (ffprobe_cmd p) (Exit 0 pout perr)]\<rparr>"
  have step: "process_video T p (a, k) s = (Inr (a, k + 1), ?s1)"
    using probe by (rule process_video_skip)
  have rest: "\<forall>q\<in>set ps. \<exists>pout perr.
      ffprobe T (fs ?s1) q = Exit 0 pout perr \<and> py_strip pout = ''h264''"
    using Cons.prems by simp
  show ?case
    using Cons.IH [OF rest, of "k + 1"] step probe by simp
qed

text \<open>
  \<open>main\<close> once a file is found and \<open>ffmpeg -version\<close> has exited with zero: the loop
  runs on the state the preflight leaves, and the summary follows if the loop returns.
\<close>

lemma main_run:
  assumes "sort (glob_glob video_pattern s) = video_files" and "video_files \<noteq> []"
    and "ffmpeg_version T (fs s) = Exit 0 vo ve"
    and "process_videos T video_files (0, 0)
           (s\<lparr>console := console s @ [FoundFiles (length video_files), Blank],
              events := events s @ [Run [''ffmpeg'', ''-version''] (Exit 0 vo ve)]\<rparr>) = (r, s3)"
  shows "main T s =
     (case r of
        Inl e \<Rightarrow> (Inl e, s3)
      | Inr (c, k) \<Rightarrow> (Inr (), s3\<lparr>console := console s3 @ summary (length video_files) c k\<rparr>))"
  using assms
  by (auto simp add: main_def py_print_def subprocess_run_def Let_def
      split: sum.splits prod.splits)


section \<open>The claims\<close>

subsection \<open>C6: a file already in the target codec\<close>

text \<open>
  C6. For every candidate file whose probed codec equals the target codec identifier
  (\<open>ffprobe\<close> exits with zero and its stripped output is \<open>h264\<close>), the turn of the loop
  counts the file as skipped and prints the skip line; the disk is the one the turn
  started with, so the content of the file is unchanged; and the only event of the turn
  is the run of \<open>ffprobe\<close>, so the transcode operation is not invoked on the file.
\<close>

theorem target_codec_is_skipped:
  assumes "ffprobe T (fs s) p = Exit 0 pout perr" and "py_strip pout = ''h264''"
  shows "\<exists>s'. process_video T p (success_count, skip_count) s
        = (Inr (success_count, skip_count + 1), s')
      \<and> fs s' = fs s
      \<and> console s' = console s @ [Skipping (basename p)]
      \<and> events s' = events s @ [Run (ffprobe_cmd p) (Exit 0 pout perr)]"
  using assms by (simp add: process_video_skip)

text \<open>
  Witness for C6: the behaving tools on a disk whose one candidate is an H.264 file.
  \<open>ffprobe\<close> prints \<open>h264\<close> and a newline.
\<close>

theorem target_codec_is_skipped_witness:
  "ffprobe demo_tools (fs (disk [(video_pattern, ''h264'')])) video_pattern
      = Exit 0 ''h264\<newline>'' []
   \<and> py_strip ''h264\<newline>'' = ''h264''
   \<and> (\<exists>s'. process_video demo_tools video_pattern (0, 0) (disk [(video_pattern, ''h264'')])
          = (Inr (0, 1), s')
        \<and> fs s' video_pattern = Some ''h264''
        \<and> console s' = [Skipping ''video_0446.mp4'']
        \<and> events s' = [Run (ffprobe_cmd video_pattern)
             (Exit 0 ''h264\<newline>'' [])])"
proof -
  let ?d = "disk [(video_pattern, ''h264'')]"
  let ?o = "''h264\<newline>''"
  have probe: "ffprobe demo_tools (fs ?d) video_pattern = Exit 0 ?o []"
    by (simp add: demo_tools_def disk_def)
  have strip: "py_strip ?o = ''h264''"
    by (simp add: py_strip_def py_isspace_def)
  from target_codec_is_skipped [OF probe strip, of 0 0]
  obtain s' where run: "process_video demo_tools video_pattern (0, 0) ?d = (Inr (0, 1), s')"
      "fs s' = fs ?d" "console s' = console ?d @ [Skipping (basename video_pattern)]"
      "events s' = events ?d @ [Run (ffprobe_cmd video_pattern) (Exit 0 ?o [])]"
    by auto
  have "fs s' video_pattern = Some ''h264''"
    using run(2) by (simp add: disk_def)
  moreover have "console s' = [Skipping ''video_0446.mp4'']"
    using run(3) by (simp add: disk_def basename_def video_pattern_def)
  moreover have "events s' = [Run (ffprobe_cmd video_pattern) (Exit 0 ?o [])]"
    using run(4) by (simp add: disk_def)
  ultimately show ?thesis
    using probe strip run(1) by blast
qed

subsection \<open>C3: a second run\<close>

text \<open>
  C3 (idempotence). If every file of the candidate set probes as the target codec, the
  loop converts nothing and counts every candidate as skipped: started on the counters
  \<open>(0, 0)\<close> it returns \<open>(0, N)\<close> for \<open>N\<close> candidates, it prints one skip line for
  each, its only events are the runs of \<open>ffprobe\<close>, and the disk is the one it started
  with. For \<open>main\<close>, when these are the files it found and \<open>ffmpeg -version\<close> exits with
  zero: the run returns, the summary reports 0 converted, all skipped and 0 failed, and
  no file is modified.
\<close>

theorem second_run_skips_everything:
  assumes "\<forall>p\<in>set ps. \<exists>pout perr.
      ffprobe T (fs s) p = Exit 0 pout perr \<and> py_strip pout = ''h264''"
  shows "process_videos T ps (0, 0) s =
       (Inr (0, int (length ps)),
        s\<lparr>console := console s @ map (\<lambda>p. Skipping (basename p)) ps,
           events := events s @ map (\<lambda>p. Run (ffprobe_cmd p) (ffprobe T (fs s) p)) ps\<rparr>)
     \<and> (sort (glob_glob video_pattern s) = ps \<and> ps \<noteq> []
          \<and> ffmpeg_version T (fs s) = Exit 0 vo ve \<longrightarrow>
        main T s =
          (Inr (),
           s\<lparr>console := console s @ [FoundFiles (length ps), Blank]
                 @ map (\<lambda>p. Skipping (basename p)) ps
                 @ [Blank, Rule, ConversionComplete, ReportConverted 0,
                    ReportSkipped (int (length ps)), ReportFailed 0, Rule],
              events := events s @ [Run [''ffmpeg'', ''-version''] (Exit 0 vo ve)]
                 @ map (\<lambda>p. Run (ffprobe_cmd p) (ffprobe T (fs s) p)) ps\<rparr>))"
proof (intro conjI impI)
  show "process_videos T ps (0, 0) s =
       (Inr (0, int (length ps)),
        s\<lparr>console := console s @ map (\<lambda>p. Skipping (basename p)) ps,
           events := events s @ map (\<lambda>p. Run (ffprobe_cmd p) (ffprobe T (fs s) p)) ps\<rparr>)"
    using process_videos_all_skip [OF assms, of 0 0] by simp
next
  assume run: "sort (glob_glob video_pattern s) = ps \<and> ps \<noteq> []
      \<and> ffmpeg_version T (fs s) = Exit 0 vo ve"
  let ?s2 = "s\<lparr>console := console s @ [FoundFiles (length ps), Blank],
      events := events s @ [Run [''ffmpeg'', ''-version''] (Exit 0 vo ve)]\<rparr>"
  have probes: "\<forall>p\<in>set ps. \<exists>pout perr.
      ffprobe T (fs ?s2) p = Exit 0 pout perr \<and> py_strip pout = ''h264''"
    using assms by simp
  have loop: "process_videos T ps (0, 0) ?s2 =
       (Inr (0, int (length ps)),
        ?s2\<lparr>console := console ?s2 @ map (\<lambda>p. Skipping (basename p)) ps,
           events := events ?s2 @ map (\<lambda>p. Run (ffprobe_cmd p) (ffprobe T (fs ?s2) p)) ps\<rparr>)"
    using process_videos_all_skip [OF probes, of 0 0] by simp
  show "main T s =
          (Inr (),
           s\<lparr>console := console s @ [FoundFiles (length ps), Blank]
                 @ map (\<lambda>p. Skipping (basename p)) ps
                 @ [Blank, Rule, ConversionComplete, ReportConverted 0,
                    ReportSkipped (int (length ps)), ReportFailed 0, Rule],
              events := events s @ [Run [''ffmpeg'', ''-version''] (Exit 0 vo ve)]
                 @ map (\<lambda>p. Run (ffprobe_cmd p) (ffprobe T (fs s) p)) ps\<rparr>)"
    using run main_run [OF _ _ _ loop] by (simp add: summary_def)
qed

text \<open>
  Witness for C3: \<open>main\<close> run a second time, on the world its first run left. The first
  run converted the candidate; the second finds it in H.264 and skips it.
\<close>

theorem second_run_skips_everything_witness:
  "fs after_first_run video_pattern = Some ''h264''
   \<and> sort (glob_glob video_pattern after_first_run) = [video_pattern]
   \<and> ffprobe demo_tools (fs after_first_run) video_pattern = Exit 0 ''h264\<newline>'' []
   \<and> py_strip ''h264\<newline>'' = ''h264''
   \<and> main demo_tools after_first_run =
       (Inr (),
        after_first_run\<lparr>console := console after_first_run @
             [FoundFiles 1, Blank, Skipping ''video_0446.mp4'', Blank, Rule,
              ConversionComplete, ReportConverted 0, ReportSkipped 1, ReportFailed 0, Rule],
           events := events after_first_run @
             [Run [''ffmpeg'', ''-version''] (Exit 0 ''ffmpeg version 6.0'' []),
              Run (ffprobe_cmd video_pattern) (Exit 0 ''h264\<newline>'' [])]\<rparr>)"
proof -
  have disk: "fs after_first_run video_pattern = Some ''h264''"
    by (simp add: after_first_run_def run_defs demo_tools_def)
  have files: "sort (glob_glob video_pattern after_first_run) = [video_pattern]"
    using disk by (simp add: video_files_eq)
  have probe: "ffprobe demo_tools (fs after_first_run) video_pattern = Exit 0 ''h264\<newline>'' []"
    using disk by (simp add: demo_tools_def)
  have strip: "py_strip ''h264\<newline>'' = ''h264''"
    by (simp add: py_strip_def py_isspace_def)
  have version: "ffmpeg_version demo_tools (fs after_first_run) = Exit 0 ''ffmpeg version 6.0'' []"
    by (simp add: demo_tools_def)
  have all: "\<forall>p\<in>set [video_pattern]. \<exists>pout perr.
      ffprobe demo_tools (fs after_first_run) p = Exit 0 pout perr \<and> py_strip pout = ''h264''"
    using probe strip by simp
  have "main demo_tools after_first_run =
       (Inr (),
        after_first_run\<lparr>console := console after_first_run @
             [FoundFiles 1, Blank, Skipping ''video_0446.mp4'', Blank, Rule,
              ConversionComplete, ReportConverted 0, ReportSkipped 1, ReportFailed 0, Rule],
           events := events after_first_run @
             [Run [''ffmpeg'', ''-version''] (Exit 0 ''ffmpeg version 6.0'' []),
              Run (ffprobe_cmd video_pattern) (Exit 0 ''h264\<newline>'' [])]\<rparr>)"
    using second_run_skips_everything [OF all, of "''ffmpeg version 6.0''" "[]"]
      files version probe
    by (simp add: basename_def video_pattern_def)
  with disk files probe strip show ?thesis
    by blast
qed

subsection \<open>C5: the transcoder cannot be invoked\<close>



subsection \<open>C9: the prober is not on the PATH\<close>

text \<open>
  C9. If \<open>ffprobe\<close> is not on the PATH, \<open>get_video_info\<close> does not catch the
  \<open>FileNotFoundError\<close>: it leaves the function. The preflight does not detect the
  absence, since it runs \<open>ffmpeg\<close> only: with a candidate found and \<open>ffmpeg -version\<close>
  exiting with zero, \<open>main\<close> reaches the first candidate, and the exception leaves
  \<open>main\<close>; nothing is printed for the file, no summary is printed, and the only events
  are the preflight and the attempt to run \<open>ffprobe\<close>.
\<close>

theorem missing_prober_aborts_the_run:
  assumes "sort (glob_glob video_pattern s) = p # rest"
    and "ffmpeg_version T (fs s) = Exit 0 vo ve"
    and "ffprobe T (fs s) p = NoSuchProgram"
  shows "get_video_info T p s =
       (Inl FileNotFoundError, s\<lparr>events := events s @ [Run (ffprobe_cmd p) NoSuchProgram]\<rparr>)
     \<and> main T s =
       (Inl FileNotFoundError,
        s\<lparr>console := console s @ [FoundFiles (Suc (length rest)), Blank],
           events := events s @ [Run [''ffmpeg'', ''-version''] (Exit 0 vo ve),
                                 Run (ffprobe_cmd p) NoSuchProgram]\<rparr>)"
proof
  show "get_video_info T p s =
       (Inl FileNotFoundError, s\<lparr>events := events s @ [Run (ffprobe_cmd p) NoSuchProgram]\<rparr>)"
    using assms(3) by (rule get_video_info_missing)
next
  let ?s2 = "s\<lparr>console := console s @ [FoundFiles (length (p # rest)), Blank],
      events := events s @ [Run [''ffmpeg'', ''-version''] (Exit 0 vo ve)]\<rparr>"
  have probe: "ffprobe T (fs ?s2) p = NoSuchProgram"
    using assms(3) by simp
  have loop: "process_videos T (p # rest) (0, 0) ?s2 =
      (Inl FileNotFoundError, ?s2\<lparr>events := events ?s2 @ [Run (ffprobe_cmd p) NoSuchProgram]\<rparr>)"
    unfolding process_videos.simps process_video_def get_video_info_missing [OF probe]
    by simp
  show "main T s =
       (Inl FileNotFoundError,
        s\<lparr>console := console s @ [FoundFiles (Suc (length rest)), Blank],
           events := events s @ [Run [''ffmpeg'', ''-version''] (Exit 0 vo ve),
                                 Run (ffprobe_cmd p) NoSuchProgram]\<rparr>)"
    using main_run [OF assms(1) _ assms(2) loop] by simp
qed

text \<open>Witness for C9: a candidate on the disk, \<open>ffmpeg\<close> present and no \<open>ffprobe\<close>.\<close>

theorem missing_prober_aborts_the_run_witness:
  "sort (glob_glob video_pattern (disk [(video_pattern, ''mpeg4'')])) = [video_pattern]
   \<and> ffmpeg_version no_ffprobe_tools (fs (disk [(video_pattern, ''mpeg4'')]))
       = Exit 0 ''ffmpeg version 6.0'' []
   \<and> ffprobe no_ffprobe_tools (fs (disk [(video_pattern, ''mpeg4'')])) video_pattern
       = NoSuchProgram
   \<and> main no_ffprobe_tools (disk [(video_pattern, ''mpeg4'')]) =
       (Inl FileNotFoundError,
        \<lparr>fs = map_of [(video_pattern, ''mpeg4'')],
         console = [FoundFiles 1, Blank],
         events = [Run [''ffmpeg'', ''-version''] (Exit 0 ''ffmpeg version 6.0'' []),
                   Run (ffprobe_cmd video_pattern) NoSuchProgram]\<rparr>)"
proof -
  let ?d = "disk [(video_pattern, ''mpeg4'')]"
  have files: "sort (glob_glob video_pattern ?d) = [video_pattern]"
    by (simp add: video_files_eq disk_def)
  have version: "ffmpeg_version no_ffprobe_tools (fs ?d) = Exit 0 ''ffmpeg version 6.0'' []"
    by (simp add: no_ffprobe_tools_def demo_tools_def)
  have probe: "ffprobe no_ffprobe_tools (fs ?d) video_pattern = NoSuchProgram"
    by (simp add: no_ffprobe_tools_def)
  show ?thesis
    using files version probe missing_prober_aborts_the_run [OF files version probe]
    by (simp add: disk_def)
qed

subsection \<open>C10: discovery comes before the preflight\<close>

text \<open>
  C10. When the pattern matches no file, \<open>main\<close> returns after printing that no files
  were found, and it has run no program: the availability of the transcoder is never
  checked. The run is the same with tools whose \<open>ffmpeg\<close> is missing, so the missing
  transcoder is not reported on an empty candidate set.
\<close>

theorem discovery_comes_before_preflight:
  assumes "sort (glob_glob video_pattern s) = []"
  shows "fst (main T s) = Inr ()
     \<and> events (snd (main T s)) = events s
     \<and> console (snd (main T s)) = console s @ [NoFilesFound]
     \<and> main (T\<lparr>ffmpeg_version := (\<lambda>f. NoSuchProgram)\<rparr>) s = main T s"
  using assms by (simp add: main_no_files)

text \<open>Witness for C10: an empty disk and no \<open>ffmpeg\<close> on the PATH.\<close>

theorem discovery_comes_before_preflight_witness:
  "sort (glob_glob video_pattern (disk [])) = []
   \<and> ffmpeg_version no_ffmpeg_tools (fs (disk [])) = NoSuchProgram
   \<and> fst (main no_ffmpeg_tools (disk [])) = Inr ()
   \<and> events (snd (main no_ffmpeg_tools (disk []))) = []
   \<and> console (snd (main no_ffmpeg_tools (disk []))) = [NoFilesFound]"
proof -
  have files: "sort (glob_glob video_pattern (disk [])) = []"
    by (simp add: video_files_eq disk_def)
  have missing: "ffmpeg_version no_ffmpeg_tools (fs (disk [])) = NoSuchProgram"
    by (simp add: no_ffmpeg_tools_def)
  show ?thesis
    using files missing discovery_comes_before_preflight [OF files, of no_ffmpeg_tools]
    by (simp add: disk_def)
qed

subsection \<open>C2: no candidates\<close>

text \<open>
  C2 as stated fails: on an empty disk the pattern matches nothing, and the run prints
  the one line that no files were found. No summary is printed: no line reports a
  converted, skipped or failed count of zero.
\<close>

theorem no_candidates_summary_counterexample:
  "sort (glob_glob video_pattern (disk [])) = []
   \<and> console (snd (main demo_tools (disk []))) = [NoFilesFound]
   \<and> ReportConverted 0 \<notin> set (console (snd (main demo_tools (disk []))))
   \<and> ReportSkipped 0 \<notin> set (console (snd (main demo_tools (disk []))))
   \<and> ReportFailed 0 \<notin> set (console (snd (main demo_tools (disk []))))"
  by (simp add: main_def glob_glob_def os_path_exists_def disk_def py_print_def)

text \<open>
  C2, amended. When the pattern matches no file, the run ends at once: \<open>main\<close> returns
  (no exception: this is not an error), it has printed the line that no files were
  found and nothing else, so no summary and no counts; no program is run and the disk
  is unchanged.
\<close>

theorem no_candidates_ends_run_cleanly:
  assumes "sort (glob_glob video_pattern s) = []"
  shows "main T s = (Inr (), s\<lparr>console := console s @ [NoFilesFound]\<rparr>)"
  using assms by (simp add: main_def py_print_def)

text \<open>Witness for C2: a disk that holds another video but not the candidate.\<close>

theorem no_candidates_ends_run_cleanly_witness:
  "sort (glob_glob video_pattern (disk [(''static/videos/teaser.mp4'', ''h264'')])) = []
   \<and> main demo_tools (disk [(''static/videos/teaser.mp4'', ''h264'')]) =
      (Inr (),
       \<lparr>fs = map_of [(''static/videos/teaser.mp4'', ''h264'')],
        console = [NoFilesFound], events = []\<rparr>)"
proof -
  let ?d = "disk [(''static/videos/teaser.mp4'', ''h264'')]"
  have files: "sort (glob_glob video_pattern ?d) = []"
    by (simp add: glob_glob_def os_path_exists_def disk_def video_pattern_def)
  show ?thesis
    using files no_candidates_ends_run_cleanly [OF files, of demo_tools]
    by (simp add: disk_def)
qed

subsection \<open>C1: a probe that fails\<close>




subsection \<open>C4: a transcode that fails\<close>




subsection \<open>C7: the temporary path and the replacement\<close>



subsection \<open>C8: the summary\<close>

text \<open>
  C8 as stated fails in one point: the summary printed after the candidates are
  processed holds the converted, the skipped and the failed count, and no line of it
  reports the total. The total is printed before the processing, in the line that
  tells how many files were found.
\<close>

theorem summary_counterexample:
  "console (snd (main demo_tools (disk [(video_pattern, ''h264'')]))) =
     [FoundFiles 1, Blank, Skipping ''video_0446.mp4'',
      Blank, Rule, ConversionComplete, ReportConverted 0, ReportSkipped 1, ReportFailed 0, Rule]
   \<and> drop 3 (console (snd (main demo_tools (disk [(video_pattern, ''h264'')])))) = summary 1 0 1
   \<and> FoundFiles 1 \<notin> set (summary 1 0 1)"
  by (simp add: run_defs demo_tools_def)

text \<open>
  C8, amended. After all candidates are processed (\<open>main\<close> has found a candidate, the
  preflight has passed and \<open>main\<close> returns), the output is the line with the number of
  files found, the lines of the loop, and the summary block, which reports the
  converted count (the number of files replaced), the skipped count (the number of
  skip lines) and a failed count equal to total minus converted minus skipped; that
  number is the number of transcodes that exited with a non-zero code. The total
  itself is reported by the line printed before the processing, not by the summary.
\<close>

theorem summary_reports_three_counts:
  assumes "sort (glob_glob video_pattern s) = video_files" and "video_files \<noteq> []"
    and "ffmpeg_version T (fs s) = Exit 0 vo ve"
    and "main T s = (Inr (), s')"
  shows "\<exists>ls es.
      console s' = console s @ [FoundFiles (length video_files), Blank] @ ls @
        [Blank, Rule, ConversionComplete,
         ReportConverted (int (length (filter is_replace es))),
         ReportSkipped (int (length (filter is_skipping ls))),
         ReportFailed (int (length video_files) - int (length (filter is_replace es))
            - int (length (filter is_skipping ls))),
         Rule]
      \<and> events s' = events s @ [Run [''ffmpeg'', ''-version''] (Exit 0 vo ve)] @ es
      \<and> probe_cmds es = map ffprobe_cmd video_files
      \<and> int (length video_files) - int (length (filter is_replace es))
            - int (length (filter is_skipping ls))
          = int (length (filter failed_convert es))"
proof -
  let ?s2 = "s\<lparr>console := console s @ [FoundFiles (length video_files), Blank],
      events := events s @ [Run [''ffmpeg'', ''-version''] (Exit 0 vo ve)]\<rparr>"
  obtain r s3 where loop: "process_videos T video_files (0, 0) ?s2 = (r, s3)"
    by (cases "process_videos T video_files (0, 0) ?s2")
  have whole: "main T s =
     (case r of
        Inl e \<Rightarrow> (Inl e, s3)
      | Inr (c, k) \<Rightarrow> (Inr (), s3\<lparr>console := console s3 @ summary (length video_files) c k\<rparr>))"
    using assms(1,2,3) loop by (rule main_run)
  obtain c k where r: "r = Inr (c, k)"
    and s': "s' = s3\<lparr>console := console s3 @ summary (length video_files) c k\<rparr>"
    using whole assms(4) by (cases r) (auto split: prod.splits)
  from process_videos_counts [OF loop [unfolded r]] obtain ls es
    where run: "console s3 = console ?s2 @ ls" "events s3 = events ?s2 @ es"
      "c = 0 + int (length (filter is_replace es))"
      "k = 0 + int (length (filter is_skipping ls))"
      "(c - 0) + (k - 0) + int (length (filter failed_convert es)) = int (length video_files)"
      "probe_cmds es = map ffprobe_cmd video_files"
    by blast
  have "console s' = console s @ [FoundFiles (length video_files), Blank] @ ls @
        [Blank, Rule, ConversionComplete,
         ReportConverted (int (length (filter is_replace es))),
         ReportSkipped (int (length (filter is_skipping ls))),
         ReportFailed (int (length video_files) - int (length (filter is_replace es))
            - int (length (filter is_skipping ls))),
         Rule]"
    using s' run(1,3,4) by (simp add: summary_def)
  moreover have "events s' = events s @ [Run [''ffmpeg'', ''-version''] (Exit 0 vo ve)] @ es"
    using s' run(2) by simp
  moreover have "int (length video_files) - int (length (filter is_replace es))
            - int (length (filter is_skipping ls))
          = int (length (filter failed_convert es))"
    using run(3,4,5) by simp
  ultimately show ?thesis
    using run(6) by blast
qed

text \<open>
  Witness for C8: a run on a truncated candidate, probed as MPEG-4, whose transcode
  fails: 0 converted, 0 skipped, 1 failed.
\<close>

theorem summary_reports_three_counts_witness:
  "sort (glob_glob video_pattern (disk [(video_pattern, ''mpeg4 truncated'')])) = [video_pattern]
   \<and> ffmpeg_version demo_tools (fs (disk [(video_pattern, ''mpeg4 truncated'')]))
        = Exit 0 ''ffmpeg version 6.0'' []
   \<and> fst (main demo_tools (disk [(video_pattern, ''mpeg4 truncated'')])) = Inr ()
   \<and> console (snd (main demo_tools (disk [(video_pattern, ''mpeg4 truncated'')]))) =
       [FoundFiles 1, Blank,
        CurrentCodec (Some ''mpeg4''), Converting ''video_0446.mp4'',
        ErrorConverting video_pattern
          (CalledProcessError 1 (ffmpeg_cmd video_pattern (temp_output video_pattern)) []
             ''Invalid data found when processing input''),
        StderrText ''Invalid data found when processing input'', Blank,
        Blank, Rule, ConversionComplete,
        ReportConverted 0, ReportSkipped 0, ReportFailed 1, Rule]
   \<and> (\<exists>ls es. events (snd (main demo_tools (disk [(video_pattern, ''mpeg4 truncated'')])))
          = [Run [''ffmpeg'', ''-version''] (Exit 0 ''ffmpeg version 6.0'' [])] @ es
        \<and> probe_cmds es = [ffprobe_cmd video_pattern]
        \<and> int (length (filter failed_convert es)) = 1)"
proof -
  let ?d = "disk [(video_pattern, ''mpeg4 truncated'')]"
  have files: "sort (glob_glob video_pattern ?d) = [video_pattern]"
    by (simp add: video_files_eq disk_def)
  have nonempty: "[video_pattern] \<noteq> []"
    by simp
  have version: "ffmpeg_version demo_tools (fs ?d) = Exit 0 ''ffmpeg version 6.0'' []"
    by (simp add: demo_tools_def)
  have returns: "fst (main demo_tools ?d) = Inr ()"
    by (simp add: run_defs demo_tools_def)
  then have run: "main demo_tools ?d = (Inr (), snd (main demo_tools ?d))"
    by (metis prod.collapse)
  have printed: "console (snd (main demo_tools ?d)) =
       [FoundFiles 1, Blank,
        CurrentCodec (Some ''mpeg4''), Converting ''video_0446.mp4'',
        ErrorConverting video_pattern
          (CalledProcessError 1 (ffmpeg_cmd video_pattern (temp_output video_pattern)) []
             ''Invalid data found when processing input''),
        StderrText ''Invalid data found when processing input'', Blank,
        Blank, Rule, ConversionComplete,
        ReportConverted 0, ReportSkipped 0, ReportFailed 1, Rule]"
    by (simp add: run_defs demo_tools_def)
  from summary_reports_three_counts [OF files nonempty version run]
  obtain ls es
    where "console (snd (main demo_tools ?d)) =
        console ?d @ [FoundFiles (length [video_pattern]), Blank] @ ls @
        [Blank, Rule, ConversionComplete,
         ReportConverted (int (length (filter is_replace es))),
         ReportSkipped (int (length (filter is_skipping ls))),
         ReportFailed (int (length [video_pattern]) - int (length (filter is_replace es))
            - int (length (filter is_skipping ls))),
         Rule]"
      and ev: "events (snd (main demo_tools ?d)) =
        events ?d @ [Run [''ffmpeg'', ''-version''] (Exit 0 ''ffmpeg version 6.0'' [])] @ es"
      and probes: "probe_cmds es = map ffprobe_cmd [video_pattern]"
      and failed: "int (length [video_pattern]) - int (length (filter is_replace es))
            - int (length (filter is_skipping ls))
          = int (length (filter failed_convert es))"
    by blast
  then have "int (length (filter failed_convert es)) = 1"
    using printed by (simp add: disk_def)
  moreover have "events (snd (main demo_tools ?d))
      = [Run [''ffmpeg'', ''-version''] (Exit 0 ''ffmpeg version 6.0'' [])] @ es"
    using ev by (simp add: disk_def)
  moreover have "probe_cmds es = [ffprobe_cmd video_pattern]"
    using probes by simp
  ultimately show ?thesis
    using files version returns printed by blast
qed

end
